theory Spec2Isabelle
  imports Main "HOL-Library.Word"
begin

unbundle bit_operations_syntax

section \<open>Volatile register access (pointer_access.h)\<close>

text \<open>
  The header defines four inline functions. Each one casts an integer address to a
  volatile pointer of the access width and dereferences that pointer once, to load or to
  store. The embedding below makes the memory explicit: a machine state holds the bytes
  of the address space and the list of volatile accesses issued so far, which is the
  observable behaviour of a C program that touches volatile objects.
\<close>

subsection \<open>Types of stdint.h\<close>

text \<open>
  \<open>uint8_t\<close> and \<open>uint16_t\<close> are words of 8 and 16 bits. The width of
  \<open>uintptr_t\<close> is fixed by the platform and not by the header, so an address is a
  word of any positive length \<open>'a\<close>.
\<close>

type_synonym uint8_t = "8 word"
type_synonym uint16_t = "16 word"
type_synonym 'a uintptr_t = "'a word"

subsection \<open>The machine\<close>

text \<open>
  The byte order of a 16-bit object is the platform's and not the header's, so the machine
  carries it as a parameter. Memory is byte addressed and every address holds an ordinary
  read-write byte.
\<close>

datatype endianness = LittleEndian | BigEndian

datatype width = W8 | W16

text \<open>An access and a machine are over a type \<open>'p\<close> of addresses, which the
  functions below take to be \<open>'a uintptr_t\<close>.\<close>

datatype 'p access =
    Load8 'p
  | Store8 'p uint8_t
  | Load16 'p
  | Store16 'p uint16_t

record 'p machine =
  endian :: endianness
  mem :: "'p \<Rightarrow> uint8_t"
  trace :: "'p access list"

fun access_width :: "'p access \<Rightarrow> width" where
  "access_width (Load8 a) = W8"
| "access_width (Store8 a v) = W8"
| "access_width (Load16 a) = W16"
| "access_width (Store16 a v) = W16"

definition access_count :: "'p machine \<Rightarrow> nat" where
  "access_count s = length (trace s)"

subsection \<open>Object representation of a 16-bit value\<close>

definition low_byte :: "uint16_t \<Rightarrow> uint8_t" where
  "low_byte v = ucast v"

definition high_byte :: "uint16_t \<Rightarrow> uint8_t" where
  "high_byte v = ucast (drop_bit 8 v)"

text \<open>\<open>encode16 e v\<close> is the pair of bytes of \<open>v\<close>, lowest address first.\<close>

fun encode16 :: "endianness \<Rightarrow> uint16_t \<Rightarrow> uint8_t \<times> uint8_t" where
  "encode16 LittleEndian v = (low_byte v, high_byte v)"
| "encode16 BigEndian v = (high_byte v, low_byte v)"

text \<open>\<open>decode16 e b0 b1\<close> is the value whose bytes are \<open>b0\<close>, at the lower
  address, and \<open>b1\<close>.\<close>

fun decode16 :: "endianness \<Rightarrow> uint8_t \<Rightarrow> uint8_t \<Rightarrow> uint16_t" where
  "decode16 LittleEndian b0 b1 = word_cat b1 b0"
| "decode16 BigEndian b0 b1 = word_cat b0 b1"

subsection \<open>Dereferencing a volatile pointer\<close>

text \<open>
  A load through a \<open>volatile uint8_t *\<close> reads one byte and is one access; a store
  writes one byte and is one access. A load or store through a
  \<open>volatile uint16_t *\<close> is one access to the object that occupies the byte at the
  pointer and the next one. Addresses are words, so the byte after the last address is the
  byte at address 0.
\<close>

definition load_uint8 ::
    "'a::len uintptr_t \<Rightarrow> 'a uintptr_t machine \<Rightarrow> uint8_t \<times> 'a uintptr_t machine" where
  "load_uint8 ptr s = (mem s ptr, s\<lparr>trace := trace s @ [Load8 ptr]\<rparr>)"

definition store_uint8 ::
    "'a::len uintptr_t \<Rightarrow> uint8_t \<Rightarrow> 'a uintptr_t machine \<Rightarrow> 'a uintptr_t machine" where
  "store_uint8 ptr v s =
     s\<lparr>mem := (mem s)(ptr := v), trace := trace s @ [Store8 ptr v]\<rparr>"

definition load_uint16 ::
    "'a::len uintptr_t \<Rightarrow> 'a uintptr_t machine \<Rightarrow> uint16_t \<times> 'a uintptr_t machine" where
  "load_uint16 ptr s =
     (decode16 (endian s) (mem s ptr) (mem s (ptr + 1)),
      s\<lparr>trace := trace s @ [Load16 ptr]\<rparr>)"

definition store_uint16 ::
    "'a::len uintptr_t \<Rightarrow> uint16_t \<Rightarrow> 'a uintptr_t machine \<Rightarrow> 'a uintptr_t machine" where
  "store_uint16 ptr v s =
     (case encode16 (endian s) v of
        (b0, b1) \<Rightarrow>
          s\<lparr>mem := (mem s)(ptr := b0, ptr + 1 := b1),
            trace := trace s @ [Store16 ptr v]\<rparr>)"

subsection \<open>The four functions of the header\<close>

text \<open>
  Names are the header's without the leading underscore. A read returns the value and the
  machine after the call; a write, which returns \<open>void\<close>, returns the machine.
\<close>

definition volatileRegisterReadUInt8 ::
    "'a::len uintptr_t \<Rightarrow> 'a uintptr_t machine \<Rightarrow> uint8_t \<times> 'a uintptr_t machine" where
  "volatileRegisterReadUInt8 address s = (let ptr = address in load_uint8 ptr s)"

definition volatileRegisterWriteUInt8 ::
    "'a::len uintptr_t \<Rightarrow> uint8_t \<Rightarrow> 'a uintptr_t machine \<Rightarrow> 'a uintptr_t machine" where
  "volatileRegisterWriteUInt8 address v s = (let ptr = address in store_uint8 ptr v s)"

definition volatileRegisterReadUInt16 ::
    "'a::len uintptr_t \<Rightarrow> 'a uintptr_t machine \<Rightarrow> uint16_t \<times> 'a uintptr_t machine" where
  "volatileRegisterReadUInt16 address s = (let ptr = address in load_uint16 ptr s)"

definition volatileRegisterWriteUInt16 ::
    "'a::len uintptr_t \<Rightarrow> uint16_t \<Rightarrow> 'a uintptr_t machine \<Rightarrow> 'a uintptr_t machine" where
  "volatileRegisterWriteUInt16 address v s = (let ptr = address in store_uint16 ptr v s)"

subsection \<open>Addresses without memory\<close>






subsection \<open>Example machines\<close>

text \<open>
  Machines with 16-bit addresses, used to evaluate the functions on concrete inputs:
  \<open>ram0\<close> is zeroed little-endian memory, \<open>ram_used\<close> is the same memory after
  some earlier access, and \<open>ram_le\<close> and \<open>ram_be\<close> hold the bytes 0x34 and 0x12
  at the addresses 0x20 and 0x21.
\<close>

definition ram0 :: "16 uintptr_t machine" where
  "ram0 = \<lparr>endian = LittleEndian, mem = (\<lambda>a. 0), trace = []\<rparr>"

definition ram_used :: "16 uintptr_t machine" where
  "ram_used = \<lparr>endian = LittleEndian, mem = (\<lambda>a. 0), trace = [Load8 0x20]\<rparr>"

definition ram_le :: "16 uintptr_t machine" where
  "ram_le =
     \<lparr>endian = LittleEndian, mem = (\<lambda>a. 0)(0x20 := 0x34, 0x21 := 0x12), trace = []\<rparr>"

definition ram_be :: "16 uintptr_t machine" where
  "ram_be =
     \<lparr>endian = BigEndian, mem = (\<lambda>a. 0)(0x20 := 0x34, 0x21 := 0x12), trace = []\<rparr>"


section \<open>Properties\<close>

subsection \<open>Bytes of a 16-bit value\<close>

lemma join_split_bytes: "word_cat (high_byte v) (low_byte v) = v"
  unfolding high_byte_def low_byte_def
  by (rule bit_word_eqI) (auto simp add: bit_simps)

lemma unat_word_cat_bytes:
  "unat (word_cat (hi :: uint8_t) (lo :: uint8_t) :: uint16_t) = 256 * unat hi + unat lo"
proof -
  have lo: "unat lo < 256"
    using unsigned_less [of lo, where ?'a = nat] by simp
  have hi: "unat hi < 256"
    using unsigned_less [of hi, where ?'a = nat] by simp
  have "unat (word_cat hi lo :: uint16_t) = (unat hi * 256 + unat lo) mod 65536"
    by (simp add: word_cat_eq unat_word_ariths unsigned_ucast_eq unsigned_push_bit_eq
        push_bit_eq_mult take_bit_eq_mod mod_mult_left_eq mod_add_left_eq mod_add_right_eq)
  also have "\<dots> = unat hi * 256 + unat lo"
    using lo hi by simp
  finally show ?thesis by simp
qed

subsection \<open>The claims\<close>

lemmas ops_defs =
  volatileRegisterReadUInt8_def volatileRegisterWriteUInt8_def
  volatileRegisterReadUInt16_def volatileRegisterWriteUInt16_def
  load_uint8_def store_uint8_def load_uint16_def store_uint16_def Let_def

text \<open>
  C1: writing a byte with \<open>_volatileRegisterWriteUInt8\<close> and reading the same address
  with \<open>_volatileRegisterReadUInt8\<close> returns the byte written. Every address of the
  machine is ordinary read-write memory and \<open>uint8_t\<close> is exactly the range 0..255.
\<close>

theorem write8_read8_roundtrip:
  "fst (volatileRegisterReadUInt8 a (volatileRegisterWriteUInt8 a v s)) = v"
  by (simp add: ops_defs)

text \<open>
  C2: writing a 16-bit value with \<open>_volatileRegisterWriteUInt16\<close> and reading the same
  address with \<open>_volatileRegisterReadUInt16\<close> returns the value written, in either byte
  order and at every address; in particular 0x1234 is read back as 0x1234.
  \<open>uint16_t\<close> is exactly the range 0..65535.
\<close>

theorem write16_read16_roundtrip:
  "fst (volatileRegisterReadUInt16 a (volatileRegisterWriteUInt16 a v s)) = v \<and>
   fst (volatileRegisterReadUInt16 a (volatileRegisterWriteUInt16 a 0x1234 s)) = 0x1234"
  by (cases "endian s")
    (simp_all add: ops_defs join_split_bytes split: prod.splits)

text \<open>
  C3: \<open>_volatileRegisterWriteUInt8\<close> leaves every byte but the one at the address as it
  was, and \<open>_volatileRegisterWriteUInt16\<close> leaves every byte but the two at the address
  and the address after it as it was. Neither changes the byte order of the machine.
\<close>

theorem write_frame:
  "(b \<noteq> a \<longrightarrow> mem (volatileRegisterWriteUInt8 a v s) b = mem s b) \<and>
   (b \<noteq> a \<and> b \<noteq> a + 1 \<longrightarrow> mem (volatileRegisterWriteUInt16 a w s) b = mem s b) \<and>
   endian (volatileRegisterWriteUInt8 a v s) = endian s \<and>
   endian (volatileRegisterWriteUInt16 a w s) = endian s"
  by (simp add: ops_defs split: prod.splits)

theorem write_frame_witness:
  "(0x21 :: 16 word) \<noteq> 0x20 \<and>
   mem (volatileRegisterWriteUInt8 0x20 0xFF ram0) 0x21 = 0 \<and>
   (0x22 :: 16 word) \<noteq> 0x20 \<and> (0x22 :: 16 word) \<noteq> 0x20 + 1 \<and>
   mem (volatileRegisterWriteUInt16 0x20 0x1234 ram0) 0x22 = 0"
  using write_frame [of "0x21" "0x20" "0xFF" ram0 "0x1234"]
    write_frame [of "0x22" "0x20" "0xFF" ram0 "0x1234"]
  by (simp add: ram0_def)

text \<open>
  C4: \<open>_volatileRegisterReadUInt8\<close> and \<open>_volatileRegisterReadUInt16\<close> leave the
  memory as it was: the machine after a read is the machine before it with the load added
  to the accesses issued, and nothing else.
\<close>

theorem read_leaves_memory:
  "mem (snd (volatileRegisterReadUInt8 a s)) = mem s \<and>
   mem (snd (volatileRegisterReadUInt16 a s)) = mem s \<and>
   snd (volatileRegisterReadUInt8 a s) = s\<lparr>trace := trace s @ [Load8 a]\<rparr> \<and>
   snd (volatileRegisterReadUInt16 a s) = s\<lparr>trace := trace s @ [Load16 a]\<rparr>"
  by (simp add: ops_defs)

text \<open>
  C5: each call of any of the four functions raises the number of accesses by exactly one.
  Adjacent calls are not merged: a write followed by a read of the same address, the same
  write twice and the same read twice each raise it by two.
\<close>

theorem one_access_per_call:
  "access_count (snd (volatileRegisterReadUInt8 a s)) = access_count s + 1 \<and>
   access_count (volatileRegisterWriteUInt8 a v s) = access_count s + 1 \<and>
   access_count (snd (volatileRegisterReadUInt16 a s)) = access_count s + 1 \<and>
   access_count (volatileRegisterWriteUInt16 a w s) = access_count s + 1 \<and>
   access_count (snd (volatileRegisterReadUInt8 a (volatileRegisterWriteUInt8 a v s)))
     = access_count s + 2 \<and>
   access_count (volatileRegisterWriteUInt8 a v (volatileRegisterWriteUInt8 a v s))
     = access_count s + 2 \<and>
   access_count (snd (volatileRegisterReadUInt8 a (snd (volatileRegisterReadUInt8 a s))))
     = access_count s + 2"
  by (simp add: ops_defs access_count_def split: prod.splits)

text \<open>
  C6: the accesses that \<open>_volatileRegisterReadUInt16\<close> and
  \<open>_volatileRegisterWriteUInt16\<close> add to the trace are one 16-bit load and one 16-bit
  store: the list of widths of the accesses issued during the call is \<open>[W16]\<close>, so no
  8-bit access is among them.
\<close>

theorem wide_access_not_split:
  "drop (length (trace s)) (trace (snd (volatileRegisterReadUInt16 a s))) = [Load16 a] \<and>
   drop (length (trace s)) (trace (volatileRegisterWriteUInt16 a w s)) = [Store16 a w] \<and>
   map access_width (drop (length (trace s)) (trace (snd (volatileRegisterReadUInt16 a s))))
     = [W16] \<and>
   map access_width (drop (length (trace s)) (trace (volatileRegisterWriteUInt16 a w s)))
     = [W16] \<and>
   W8 \<notin> set (map access_width
     (drop (length (trace s)) (trace (snd (volatileRegisterReadUInt16 a s))))) \<and>
   W8 \<notin> set (map access_width
     (drop (length (trace s)) (trace (volatileRegisterWriteUInt16 a w s))))"
  by (simp add: ops_defs split: prod.splits)

text \<open>
  C7: \<open>_volatileRegisterReadUInt16\<close> returns the bytes at the address and at the address
  after it, combined in the byte order of the machine: on a little-endian machine the byte
  at the address is the low byte, on a big-endian machine it is the high byte.
\<close>

theorem read16_native_endian:
  "(endian s = LittleEndian \<longrightarrow>
      unat (fst (volatileRegisterReadUInt16 a s))
        = unat (mem s a) + 256 * unat (mem s (a + 1))) \<and>
   (endian s = BigEndian \<longrightarrow>
      unat (fst (volatileRegisterReadUInt16 a s))
        = 256 * unat (mem s a) + unat (mem s (a + 1)))"
  by (simp add: ops_defs unat_word_cat_bytes)

theorem read16_native_endian_witness:
  "endian ram_le = LittleEndian \<and>
   unat (fst (volatileRegisterReadUInt16 0x20 ram_le)) = 0x1234 \<and>
   endian ram_be = BigEndian \<and>
   unat (fst (volatileRegisterReadUInt16 0x20 ram_be)) = 0x3412"
  using read16_native_endian [of ram_le "0x20"] read16_native_endian [of ram_be "0x20"]
  by (simp add: ram_le_def ram_be_def)

text \<open>
  C9: the functions keep no state of their own. Two calls of the same function with the
  same arguments, on machines of the same byte order whose memories are equal, return the
  same value and leave equal memories, whatever accesses were issued before either call.
\<close>

theorem no_internal_state:
  assumes "mem s = mem t" and "endian s = endian t"
  shows "fst (volatileRegisterReadUInt8 a s) = fst (volatileRegisterReadUInt8 a t) \<and>
     mem (snd (volatileRegisterReadUInt8 a s)) = mem (snd (volatileRegisterReadUInt8 a t)) \<and>
     mem (volatileRegisterWriteUInt8 a v s) = mem (volatileRegisterWriteUInt8 a v t) \<and>
     fst (volatileRegisterReadUInt16 a s) = fst (volatileRegisterReadUInt16 a t) \<and>
     mem (snd (volatileRegisterReadUInt16 a s)) = mem (snd (volatileRegisterReadUInt16 a t)) \<and>
     mem (volatileRegisterWriteUInt16 a w s) = mem (volatileRegisterWriteUInt16 a w t)"
  using assms by (simp add: ops_defs split: prod.splits)

theorem no_internal_state_witness:
  "mem ram0 = mem ram_used \<and> endian ram0 = endian ram_used \<and>
   trace ram0 \<noteq> trace ram_used \<and>
   fst (volatileRegisterReadUInt8 0x20 ram0) = fst (volatileRegisterReadUInt8 0x20 ram_used) \<and>
   mem (volatileRegisterWriteUInt8 0x20 0xFF ram0)
     = mem (volatileRegisterWriteUInt8 0x20 0xFF ram_used) \<and>
   fst (volatileRegisterReadUInt16 0x20 ram0) = fst (volatileRegisterReadUInt16 0x20 ram_used) \<and>
   mem (volatileRegisterWriteUInt16 0x20 0x1234 ram0)
     = mem (volatileRegisterWriteUInt16 0x20 0x1234 ram_used)"
proof -
  have m: "mem ram0 = mem ram_used" and e: "endian ram0 = endian ram_used"
    by (simp_all add: ram0_def ram_used_def)
  have "trace ram0 \<noteq> trace ram_used"
    by (simp add: ram0_def ram_used_def)
  with m e no_internal_state [OF m e, of "0x20" "0xFF" "0x1234"] show ?thesis
    by simp
qed




end
